theory Spec2Isabelle
  imports Complex_Main "HOL-Library.Word"
begin

section \<open>JavaScript values reaching the server\<close>

text \<open>
  A JavaScript string is a sequence of 16-bit code units; a Buffer is a sequence of
  bytes. \<open>js\<close> writes an ASCII literal as code units.
\<close>

type_synonym jsstring = "16 word list"
type_synonym buffer = "8 word list"

definition js :: "string \<Rightarrow> jsstring" where
  "js s = map (\<lambda>c. of_nat (of_char c)) s"

text \<open>
  Numbers: the finite doubles are rationals, so a finite number is kept as the rational
  it denotes (\<open>-0\<close> and \<open>0\<close> coincide, which no comparison of the server tells apart).
\<close>

datatype jsnum = NaN | PosInf | NegInf | Fin rat

text \<open>
  What \<open>JSON.parse\<close> returns, together with \<open>undefined\<close> (the value of a property that
  is absent). An object is the list of its own properties.
\<close>

datatype jsval =
    JUndefined
  | JNull
  | JBool bool
  | JNum jsnum
  | JStr jsstring
  | JArr "jsval list"
  | JObj "(jsstring \<times> jsval) list"

datatype js_error = Error string | TypeError | SyntaxError | RangeError | PtyError

fun is_string :: "jsval \<Rightarrow> bool" where
  "is_string (JStr _) = True"
| "is_string _ = False"

section \<open>secureTokenCompare\<close>

text \<open>
  \<open>Buffer.from(string)\<close> encodes the string as UTF-8: a surrogate pair becomes the four
  bytes of its code point, a lone surrogate the three bytes of U+FFFD.
\<close>

definition is_high_surrogate :: "nat \<Rightarrow> bool" where
  "is_high_surrogate u = (0xD800 \<le> u \<and> u < 0xDC00)"

definition is_low_surrogate :: "nat \<Rightarrow> bool" where
  "is_low_surrogate u = (0xDC00 \<le> u \<and> u < 0xE000)"

definition utf8_code_point :: "nat \<Rightarrow> buffer" where
  "utf8_code_point u =
     (if u < 0x80 then [of_nat u]
      else if u < 0x800 then [of_nat (0xC0 + u div 64), of_nat (0x80 + u mod 64)]
      else if u < 0x10000 then
        [of_nat (0xE0 + u div 4096), of_nat (0x80 + (u div 64) mod 64), of_nat (0x80 + u mod 64)]
      else
        [of_nat (0xF0 + u div 262144), of_nat (0x80 + (u div 4096) mod 64),
         of_nat (0x80 + (u div 64) mod 64), of_nat (0x80 + u mod 64)])"

fun Buffer_from :: "jsstring \<Rightarrow> buffer" where
  "Buffer_from [] = []"
| "Buffer_from [c] =
     (if is_high_surrogate (unat c) \<or> is_low_surrogate (unat c) then utf8_code_point 0xFFFD
      else utf8_code_point (unat c))"
| "Buffer_from (c # d # cs) =
     (if is_high_surrogate (unat c) then
        (if is_low_surrogate (unat d)
         then utf8_code_point (0x10000 + (unat c - 0xD800) * 1024 + (unat d - 0xDC00))
                @ Buffer_from cs
         else utf8_code_point 0xFFFD @ Buffer_from (d # cs))
      else if is_low_surrogate (unat c) then utf8_code_point 0xFFFD @ Buffer_from (d # cs)
      else utf8_code_point (unat c) @ Buffer_from (d # cs))"

text \<open>\<open>Buffer.alloc(n)\<close> is \<open>n\<close> zero bytes; \<open>buf.copy(target)\<close> overwrites its start.\<close>

definition Buffer_alloc :: "nat \<Rightarrow> buffer" where
  "Buffer_alloc n = replicate n 0"

definition Buffer_copy :: "buffer \<Rightarrow> buffer \<Rightarrow> buffer" where
  "Buffer_copy src target =
     take (length target) src @ drop (length src) target"

text \<open>\<open>crypto.timingSafeEqual\<close> throws a RangeError on buffers of different lengths.\<close>

definition timingSafeEqual :: "buffer \<Rightarrow> buffer \<Rightarrow> js_error + bool" where
  "timingSafeEqual a b = (if length a \<noteq> length b then Inl RangeError else Inr (a = b))"

fun secureTokenCompare :: "jsval \<Rightarrow> jsval \<Rightarrow> js_error + bool" where
  "secureTokenCompare (JStr a) (JStr b) =
     (let bufA = Buffer_from a; bufB = Buffer_from b in
      if length bufA \<noteq> length bufB then
        (let maxLen = max (length bufA) (length bufB);
             paddedA = Buffer_copy bufA (Buffer_alloc maxLen);
             paddedB = Buffer_copy bufB (Buffer_alloc maxLen)
         in timingSafeEqual paddedA paddedB)
      else timingSafeEqual bufA bufB)"
| "secureTokenCompare _ _ = Inr False"

section \<open>Origin check\<close>

text \<open>\<open>hostname.split('.')\<close>: the parts between the dots, at least one.\<close>

fun split :: "16 word \<Rightarrow> jsstring \<Rightarrow> jsstring list" where
  "split sep [] = [[]]"
| "split sep (c # cs) =
     (if c = sep then [] # split sep cs
      else (case split sep cs of
              [] \<Rightarrow> [[c]]
            | p # ps \<Rightarrow> (c # p) # ps))"

text \<open>
  \<open>parseInt(s, 10)\<close>: leading white space is skipped, one sign is read, then the longest
  run of decimal digits; what follows the digits is ignored. No digit gives NaN, here
  \<open>None\<close>. The result is kept as the integer the digits denote: the server compares it
  with 100, 64 and 127 only, which the rounding to a double does not affect.
\<close>

definition StrWhiteSpaceChar :: "16 word \<Rightarrow> bool" where
  "StrWhiteSpaceChar c =
     (let u = unat c in
      u = 0x9 \<or> u = 0xA \<or> u = 0xB \<or> u = 0xC \<or> u = 0xD \<or> u = 0x20 \<or> u = 0xA0
      \<or> u = 0x1680 \<or> (0x2000 \<le> u \<and> u \<le> 0x200A) \<or> u = 0x2028 \<or> u = 0x2029
      \<or> u = 0x202F \<or> u = 0x205F \<or> u = 0x3000 \<or> u = 0xFEFF)"

definition is_digit :: "16 word \<Rightarrow> bool" where
  "is_digit c = (0x30 \<le> unat c \<and> unat c \<le> 0x39)"

definition digits_value :: "jsstring \<Rightarrow> int" where
  "digits_value ds = foldl (\<lambda>a c. 10 * a + (int (unat c) - 0x30)) 0 ds"

definition parseInt :: "jsstring \<Rightarrow> int option" where
  "parseInt input =
     (let s = dropWhile StrWhiteSpaceChar input;
          sign = (case s of c # _ \<Rightarrow> if c = 0x2D then - 1 else 1 | [] \<Rightarrow> (1::int));
          s' = (case s of c # r \<Rightarrow> if c = 0x2D \<or> c = 0x2B then r else s | [] \<Rightarrow> s);
          z = takeWhile is_digit s'
      in if z = [] then None else Some (sign * digits_value z))"

definition isTailscaleIP :: "jsstring \<Rightarrow> bool" where
  "isTailscaleIP hostname =
     (let parts = split 0x2E hostname in
      if length parts \<noteq> 4 then False
      else
        (let first = parseInt (parts ! 0);
             second = parseInt (parts ! 1)
         in first = Some 100
            \<and> (case second of None \<Rightarrow> False | Some n \<Rightarrow> 64 \<le> n \<and> n \<le> 127)))"

text \<open>
  \<open>isAllowedOrigin\<close> reads the hostname with \<open>new URL(origin)\<close>. The URL parser is a
  parameter of the model: \<open>url_hostname origin\<close> is the hostname, \<open>None\<close> when the
  constructor throws. An absent header and the empty string are falsy.
\<close>

definition isAllowedOrigin :: "(jsstring \<Rightarrow> jsstring option) \<Rightarrow> jsstring option \<Rightarrow> bool" where
  "isAllowedOrigin url_hostname origin =
     (case origin of
        None \<Rightarrow> True
      | Some orig \<Rightarrow>
          if orig = [] then True
          else (case url_hostname orig of
                  None \<Rightarrow> False
                | Some hostname \<Rightarrow>
                    hostname = js ''localhost'' \<or> hostname = js ''127.0.0.1''
                    \<or> isTailscaleIP hostname))"

section \<open>Input validation and number coercion\<close>

definition MAX_INPUT_LENGTH :: nat where
  "MAX_INPUT_LENGTH = 10000"

definition MAX_CONNECTIONS :: int where
  "MAX_CONNECTIONS = 3"

fun validateInput :: "jsval \<Rightarrow> js_error + unit" where
  "validateInput (JStr input) =
     (if length input = 0 then Inl (Error ''Input cannot be empty'')
      else if length input > MAX_INPUT_LENGTH then Inl (Error ''Input exceeds maximum length'')
      else if 0 \<in> set input then Inl (Error ''Invalid input: contains null bytes'')
      else Inr ())"
| "validateInput _ = Inl (Error ''Input cannot be empty'')"

text \<open>
  \<open>Number(v)\<close>. The conversion of a string rounds a numeric literal to a double, and
  the conversion of an array or object goes through its string form; both are parameters
  of the model, so that every result holds whatever they return. Converting an object
  can throw a TypeError.
\<close>

record coercions =
  str_to_number :: "jsstring \<Rightarrow> jsnum"
  obj_to_number :: "jsval \<Rightarrow> js_error + jsnum"

fun Number :: "coercions \<Rightarrow> jsval \<Rightarrow> js_error + jsnum" where
  "Number co JUndefined = Inr NaN"
| "Number co JNull = Inr (Fin 0)"
| "Number co (JBool b) = Inr (Fin (if b then 1 else 0))"
| "Number co (JNum n) = Inr n"
| "Number co (JStr s) = Inr (str_to_number co s)"
| "Number co v = obj_to_number co v"

fun Number_isInteger :: "jsnum \<Rightarrow> bool" where
  "Number_isInteger (Fin q) = (of_int \<lfloor>q\<rfloor> = q)"
| "Number_isInteger _ = False"

fun js_lt :: "jsnum \<Rightarrow> jsnum \<Rightarrow> bool" where
  "js_lt (Fin a) (Fin b) = (a < b)"
| "js_lt NaN _ = False"
| "js_lt _ NaN = False"
| "js_lt PosInf _ = False"
| "js_lt _ NegInf = False"
| "js_lt NegInf _ = True"
| "js_lt _ PosInf = True"

definition valid_dimensions :: "jsnum \<Rightarrow> jsnum \<Rightarrow> bool" where
  "valid_dimensions cols rows =
     (\<not> (\<not> Number_isInteger cols \<or> \<not> Number_isInteger rows
         \<or> js_lt cols (Fin 1) \<or> js_lt (Fin 500) cols
         \<or> js_lt rows (Fin 1) \<or> js_lt (Fin 200) rows))"

section \<open>One connection\<close>

text \<open>
  What the server sends to the client, as the object given to \<open>JSON.stringify\<close>.
\<close>

datatype envelope =
    Connected string
  | Output jsstring
  | Exit int
  | ErrorEnv string

text \<open>
  The calls a connection makes on its collaborators, in order: the methods of the
  WebSocket, the PTY library, the timer and the log (a log line is kept as its fixed
  text). A PTY handle is the number of the spawn that returned it. \<open>PtySpawn h cols rows\<close>
  is \<open>createPTY(cols, rows)\<close> returning handle \<open>h\<close>; the shell and the environment it
  passes on are not part of the model. Two calls have an outcome that the environment
  decides: \<open>ws.send\<close> in the callbacks of the PTY, where the source catches what it throws,
  and \<open>ptyProcess.resize\<close>, which throws on a PTY that has exited (\<open>PtyError\<close>) and is
  called inside the handler's \<open>try\<close>. \<open>PtyResize h cols rows\<close> records the call, whether it
  returned or threw. The other calls are taken to return.
\<close>

datatype effect =
    WsSend envelope
  | WsClose "(nat \<times> string) option"
  | WsTerminate
  | WsPing
  | PtySpawn nat jsnum jsnum
  | PtyWrite nat jsstring
  | PtyResize nat jsnum jsnum
  | PtyKill nat
  | ClearTimeout
  | Log string

text \<open>
  The variables that the handlers of one connection close over. \<open>authTimeout\<close> says
  that the variable holds a timer; \<open>timer_armed\<close> that this timer has neither fired nor
  been cleared; \<open>spawned\<close> counts the PTYs the connection has created.
\<close>

record session =
  AUTH_TOKEN :: "jsstring option"
  authenticated :: bool
  authTimeout :: bool
  timer_armed :: bool
  ptyProcess :: "nat option"
  spawned :: nat

text \<open>A token is required when the environment variable is set and not empty.\<close>

fun token_required :: "jsstring option \<Rightarrow> bool" where
  "token_required None = False"
| "token_required (Some t) = (t \<noteq> [])"

definition init_session :: "jsstring option \<Rightarrow> session" where
  "init_session token =
     \<lparr> AUTH_TOKEN = token,
       authenticated = (\<not> token_required token),
       authTimeout = token_required token,
       timer_armed = token_required token,
       ptyProcess = None,
       spawned = 0 \<rparr>"

definition connect_effects :: "jsstring option \<Rightarrow> effect list" where
  "connect_effects token =
     Log ''Client connected''
       # (if \<not> token_required token then [WsSend (Connected ''PTY initialized'')] else [])"

text \<open>
  Reading a property of a parsed message. On \<open>null\<close> the read throws; an object gives its
  own property or \<open>undefined\<close>; any other value has none of the properties the server
  reads (\<open>type\<close>, \<open>token\<close>, \<open>data\<close>, \<open>cols\<close>, \<open>rows\<close>).
\<close>

fun get_prop :: "jsval \<Rightarrow> jsstring \<Rightarrow> js_error + jsval" where
  "get_prop JNull k = Inl TypeError"
| "get_prop JUndefined k = Inl TypeError"
| "get_prop (JObj ps) k = (case map_of ps k of None \<Rightarrow> Inr JUndefined | Some v \<Rightarrow> Inr v)"
| "get_prop _ k = Inr JUndefined"

definition setupPTY :: "session \<Rightarrow> jsnum \<Rightarrow> jsnum \<Rightarrow> effect list \<times> session" where
  "setupPTY s cols rows =
     ([PtySpawn (spawned s) cols rows],
      s\<lparr>ptyProcess := Some (spawned s), spawned := Suc (spawned s)\<rparr>)"

text \<open>
  What running the \<open>try\<close> block gives: \<open>Inr\<close>, the calls made and the session left;
  \<open>Inl\<close>, the calls made before an error was thrown, and the error.
\<close>

type_synonym outcome = "(effect list \<times> js_error) + (effect list \<times> session)"

text \<open>The \<open>auth\<close> branch of the message handler.\<close>

definition handle_auth :: "session \<Rightarrow> jsval \<Rightarrow> outcome" where
  "handle_auth s message =
     (case AUTH_TOKEN s of
        None \<Rightarrow> Inr ([], s)
      | Some token \<Rightarrow>
          if token = [] then Inr ([], s)
          else if authenticated s then Inr ([], s)
          else
            (case get_prop message (js ''token'') of
               Inl e \<Rightarrow> Inl ([], e)
             | Inr clientToken \<Rightarrow>
                 (case secureTokenCompare clientToken (JStr token) of
                    Inl e \<Rightarrow> Inl ([], e)
                  | Inr True \<Rightarrow>
                      Inr ([ClearTimeout, Log ''Client authenticated successfully'',
                            WsSend (Connected ''Authentication successful'')],
                           s\<lparr>authenticated := True, timer_armed := False\<rparr>)
                  | Inr False \<Rightarrow>
                      Inr ([Log ''Rejected connection: invalid token'',
                            WsClose (Some (4001, ''Unauthorized''))], s))))"

definition handle_input :: "session \<Rightarrow> jsval \<Rightarrow> outcome" where
  "handle_input s message =
     (case get_prop message (js ''data'') of
        Inl e \<Rightarrow> Inl ([], e)
      | Inr data \<Rightarrow>
          (case validateInput data of
             Inl e \<Rightarrow> Inl ([], e)
           | Inr _ \<Rightarrow>
               (case ptyProcess s of
                  None \<Rightarrow> Inr ([], s)
                | Some h \<Rightarrow>
                    Inr ([PtyWrite h (case data of JStr d \<Rightarrow> d | _ \<Rightarrow> [])], s))))"

definition handle_resize :: "coercions \<Rightarrow> session \<Rightarrow> jsval \<Rightarrow> bool \<Rightarrow> outcome" where
  "handle_resize co s message resized =
     (case get_prop message (js ''cols'') of
        Inl e \<Rightarrow> Inl ([], e)
      | Inr c \<Rightarrow>
     (case Number co c of
        Inl e \<Rightarrow> Inl ([], e)
      | Inr cols \<Rightarrow>
     (case get_prop message (js ''rows'') of
        Inl e \<Rightarrow> Inl ([], e)
      | Inr r \<Rightarrow>
     (case Number co r of
        Inl e \<Rightarrow> Inl ([], e)
      | Inr rows \<Rightarrow>
          if \<not> valid_dimensions cols rows then Inl ([], Error ''Invalid resize dimensions'')
          else
            (case ptyProcess s of
               None \<Rightarrow>
                 (let (fx, s') = setupPTY s cols rows in Inr (fx @ [Log ''PTY created''], s'))
             | Some h \<Rightarrow>
                 if resized then Inr ([PtyResize h cols rows, Log ''PTY resized''], s)
                 else Inl ([PtyResize h cols rows], PtyError))))))"

text \<open>
  The body of the \<open>try\<close> block. A payload that \<open>JSON.parse\<close> rejects is \<open>Malformed\<close>.
  \<open>resized\<close> says whether \<open>ptyProcess.resize\<close> returns, should the handler call it.
\<close>

datatype payload = Parsed jsval | Malformed

fun try_message :: "coercions \<Rightarrow> session \<Rightarrow> payload \<Rightarrow> bool \<Rightarrow> outcome" where
  "try_message co s Malformed resized = Inl ([], SyntaxError)"
| "try_message co s (Parsed message) resized =
     (case get_prop message (js ''type'') of
        Inl e \<Rightarrow> Inl ([], e)
      | Inr ty \<Rightarrow>
          if ty = JStr (js ''auth'') then handle_auth s message
          else if \<not> authenticated s then Inr ([], s)
          else if ty = JStr (js ''input'') then handle_input s message
          else if ty = JStr (js ''resize'') then handle_resize co s message resized
          else Inl ([], Error ''Unknown message type''))"

text \<open>The handler: what the \<open>try\<close> block did, followed by the \<open>catch\<close> block if it threw.\<close>

definition on_message ::
  "coercions \<Rightarrow> session \<Rightarrow> payload \<Rightarrow> bool \<Rightarrow> effect list \<times> session" where
  "on_message co s p resized =
     (case try_message co s p resized of
        Inr res \<Rightarrow> res
      | Inl (fx, err) \<Rightarrow>
          (fx @ [Log ''Message handling error'', WsSend (ErrorEnv ''Failed to process request'')],
           s))"

definition on_close :: "session \<Rightarrow> effect list \<times> session" where
  "on_close s =
     ((if authTimeout s then [ClearTimeout] else [])
        @ [Log ''Client disconnected'']
        @ (case ptyProcess s of None \<Rightarrow> [] | Some h \<Rightarrow> [PtyKill h]),
      s\<lparr>timer_armed := (if authTimeout s then False else timer_armed s), ptyProcess := None\<rparr>)"

definition on_error :: "session \<Rightarrow> effect list \<times> session" where
  "on_error s = ([Log ''WebSocket error''], s)"

text \<open>The callback of the authentication timer, which runs once, 5000 ms after the connection.\<close>

definition on_auth_timeout :: "session \<Rightarrow> effect list \<times> session" where
  "on_auth_timeout s =
     ((if \<not> authenticated s
       then [Log ''Authentication timeout, closing connection'',
             WsClose (Some (4001, ''Authentication timeout''))]
       else []),
      s\<lparr>timer_armed := False\<rparr>)"

text \<open>
  The callbacks that \<open>setupPTY\<close> registers on the PTY. The flag says whether \<open>ws.send\<close>
  succeeded; when it throws, the error is logged.
\<close>

definition on_pty_data :: "session \<Rightarrow> jsstring \<Rightarrow> bool \<Rightarrow> effect list \<times> session" where
  "on_pty_data s data sent =
     ((if sent then [WsSend (Output data)] else [Log ''Error sending PTY output'']), s)"

definition on_pty_exit :: "session \<Rightarrow> int \<Rightarrow> bool \<Rightarrow> effect list \<times> session" where
  "on_pty_exit s exitCode sent =
     (Log ''PTY exited''
        # (if sent then [WsSend (Exit exitCode)]
           else [Log ''Error sending PTY exit notification'']), s)"

text \<open>
  The events of a connection. A message comes with the outcome of \<open>ptyProcess.resize\<close>,
  for the handler that calls it. The timer fires only while it is armed, and the PTY
  callbacks run only on a PTY that was spawned.
\<close>

datatype event =
    WsMessage payload bool
  | WsCloseEv
  | WsErrorEv
  | AuthTimerFires
  | PtyData jsstring bool
  | PtyExit int bool

fun step :: "coercions \<Rightarrow> session \<Rightarrow> event \<Rightarrow> effect list \<times> session" where
  "step co s (WsMessage p resized) = on_message co s p resized"
| "step co s WsCloseEv = on_close s"
| "step co s WsErrorEv = on_error s"
| "step co s AuthTimerFires = (if timer_armed s then on_auth_timeout s else ([], s))"
| "step co s (PtyData data sent) =
     (if spawned s = 0 then ([], s) else on_pty_data s data sent)"
| "step co s (PtyExit exitCode sent) =
     (if spawned s = 0 then ([], s) else on_pty_exit s exitCode sent)"

text \<open>
  A connection's life: its events in order up to the \<open>close\<close> event, after which the
  WebSocket delivers nothing more.
\<close>

fun run :: "coercions \<Rightarrow> session \<Rightarrow> event list \<Rightarrow> effect list \<times> session" where
  "run co s [] = ([], s)"
| "run co s (e # es) =
     (let (fx, s') = step co s e in
      if e = WsCloseEv then (fx, s')
      else (let (fx', s'') = run co s' es in (fx @ fx', s'')))"

section \<open>The server\<close>

record request =
  origin :: "jsstring option"
  remoteAddress :: jsstring

text \<open>
  The module's state: the counter \<open>activeConnections\<close>, and the connections whose
  handlers are registered, each under the number of its WebSocket.
\<close>

record server =
  activeConnections :: int
  connections :: "(nat \<times> session) list"

definition handleConnection ::
  "(jsstring \<Rightarrow> jsstring option) \<Rightarrow> jsstring option \<Rightarrow> nat \<Rightarrow> request \<Rightarrow> server
     \<Rightarrow> (nat \<times> effect) list \<times> server" where
  "handleConnection url_hostname env_token ws req srv =
     (if \<not> isAllowedOrigin url_hostname (origin req) then
        ([(ws, Log ''Rejected connection from unauthorized origin''), (ws, WsClose None)], srv)
      else if activeConnections srv \<ge> MAX_CONNECTIONS then
        ([(ws, Log ''Connection limit reached, rejecting new connection''), (ws, WsClose None)],
         srv)
      else
        (map (Pair ws) (connect_effects env_token),
         srv\<lparr>activeConnections := activeConnections srv + 1,
             connections := connections srv @ [(ws, init_session env_token)]\<rparr>))"

text \<open>An event of WebSocket \<open>ws\<close> runs that connection's handler; \<open>close\<close> frees its slot.\<close>

definition deliver ::
  "coercions \<Rightarrow> nat \<Rightarrow> event \<Rightarrow> server \<Rightarrow> (nat \<times> effect) list \<times> server" where
  "deliver co ws e srv =
     (case map_of (connections srv) ws of
        None \<Rightarrow> ([], srv)
      | Some s \<Rightarrow>
          (let (fx, s') = step co s e in
           if e = WsCloseEv then
             (map (Pair ws) fx,
              srv\<lparr>activeConnections := activeConnections srv - 1,
                  connections := filter (\<lambda>c. fst c \<noteq> ws) (connections srv)\<rparr>)
           else
             (map (Pair ws) fx,
              srv\<lparr>connections := map (\<lambda>c. if fst c = ws then (ws, s') else c)
                                     (connections srv)\<rparr>)))"

section \<open>Vocabulary of the properties\<close>

text \<open>
  A valid resize request and the dimensions it asks for: a parsed message of type
  \<open>resize\<close> whose \<open>cols\<close> and \<open>rows\<close> convert to numbers that pass the handler's check.
\<close>

definition resize_request :: "coercions \<Rightarrow> payload \<Rightarrow> (jsnum \<times> jsnum) option" where
  "resize_request co p =
     (case p of
        Malformed \<Rightarrow> None
      | Parsed m \<Rightarrow>
          if get_prop m (js ''type'') = Inr (JStr (js ''resize'')) then
            (case (get_prop m (js ''cols''), get_prop m (js ''rows'')) of
               (Inr c, Inr r) \<Rightarrow>
                 (case (Number co c, Number co r) of
                    (Inr cols, Inr rows) \<Rightarrow>
                      if valid_dimensions cols rows then Some (cols, rows) else None
                  | _ \<Rightarrow> None)
             | _ \<Rightarrow> None)
          else None)"

text \<open>A valid input request and its data: type \<open>input\<close>, data accepted by \<open>validateInput\<close>.\<close>

definition input_request :: "payload \<Rightarrow> jsstring option" where
  "input_request p =
     (case p of
        Malformed \<Rightarrow> None
      | Parsed m \<Rightarrow>
          if get_prop m (js ''type'') = Inr (JStr (js ''input'')) then
            (case get_prop m (js ''data'') of
               Inr (JStr d) \<Rightarrow> if validateInput (JStr d) = Inr () then Some d else None
             | _ \<Rightarrow> None)
          else None)"

text \<open>
  A non-auth message: a parsed payload whose \<open>type\<close> can be read and is not \<open>auth\<close>, that
  is an \<open>input\<close>, a \<open>resize\<close> or a message of unknown type.
\<close>

definition non_auth :: "payload \<Rightarrow> bool" where
  "non_auth p =
     (case p of
        Malformed \<Rightarrow> False
      | Parsed m \<Rightarrow>
          (case get_prop m (js ''type'') of
             Inl e \<Rightarrow> False
           | Inr ty \<Rightarrow> ty \<noteq> JStr (js ''auth'')))"

fun is_spawn :: "effect \<Rightarrow> bool" where
  "is_spawn (PtySpawn h c r) = True"
| "is_spawn _ = False"

text \<open>What the \<open>catch\<close> block of the message handler does.\<close>

definition catch_effects :: "effect list" where
  "catch_effects =
     [Log ''Message handling error'', WsSend (ErrorEnv ''Failed to process request'')]"

text \<open>
  What holds of the PTY handle in every state a connection reaches: it was returned by a
  spawn of this session, and the session is authenticated.
\<close>

definition session_inv :: "session \<Rightarrow> bool" where
  "session_inv s =
     (case ptyProcess s of None \<Rightarrow> True | Some h \<Rightarrow> h < spawned s \<and> authenticated s)"

section \<open>Concrete inputs\<close>

text \<open>
  Messages as the client of the repository builds them, a server that has seen no
  connection, and a session that has spawned its PTY. The examples carry their dimensions
  as JSON numbers, so they run with coercions that turn every string and object to NaN.
\<close>

definition example_coercions :: coercions where
  "example_coercions = \<lparr> str_to_number = (\<lambda>_. NaN), obj_to_number = (\<lambda>_. Inr NaN) \<rparr>"

definition initial_server :: server where
  "initial_server = \<lparr> activeConnections = 0, connections = [] \<rparr>"

definition auth_message :: "jsstring \<Rightarrow> payload" where
  "auth_message token =
     Parsed (JObj [(js ''type'', JStr (js ''auth'')), (js ''token'', JStr token)])"

definition input_message :: "jsstring \<Rightarrow> payload" where
  "input_message d =
     Parsed (JObj [(js ''type'', JStr (js ''input'')), (js ''data'', JStr d)])"

definition resize_message :: "rat \<Rightarrow> rat \<Rightarrow> payload" where
  "resize_message c r =
     Parsed (JObj [(js ''type'', JStr (js ''resize'')),
                   (js ''cols'', JNum (Fin c)), (js ''rows'', JNum (Fin r))])"

definition session_with_pty :: session where
  "session_with_pty = (init_session None)\<lparr>ptyProcess := Some 0, spawned := 1\<rparr>"

definition tailscale_request :: request where
  "tailscale_request = \<lparr> origin = None, remoteAddress = js ''100.64.0.1'' \<rparr>"

section \<open>Token comparison\<close>

lemmas buffer_defs = js_def Buffer_copy_def Buffer_alloc_def timingSafeEqual_def
  utf8_code_point_def is_high_surrogate_def is_low_surrogate_def

lemmas message_defs = auth_message_def input_message_def resize_message_def

lemma secureTokenCompare_returns: "\<exists>b. secureTokenCompare x y = Inr b"
  by (cases x; cases y) (auto simp: Let_def timingSafeEqual_def Buffer_copy_def Buffer_alloc_def)

lemma secureTokenCompare_same: "secureTokenCompare (JStr a) (JStr a) = Inr True"
  by (simp add: timingSafeEqual_def)

lemma secureTokenCompare_same_length:
  assumes "length (Buffer_from a) = length (Buffer_from b)"
  shows "secureTokenCompare (JStr a) (JStr b) = Inr (Buffer_from a = Buffer_from b)"
  using assms by (simp add: timingSafeEqual_def)

text \<open>
  C1. Specified: \<open>secureTokenCompare(a, b)\<close> is true when \<open>a = b\<close> and false whenever
  \<open>a \<noteq> b\<close>, also when the lengths differ, for instance when one token is the other
  extended by extra bytes. The code pads the shorter buffer with zero bytes before it
  compares, so a token extended by NUL characters compares equal: here
  \<open>"s3cret\u0000"\<close> against \<open>"s3cret"\<close>, two different strings, gives \<open>true\<close>.
\<close>

theorem secureTokenCompare_accepts_nul_extended_token:
  "js ''s3cret'' @ [0] \<noteq> js ''s3cret''
   \<and> secureTokenCompare (JStr (js ''s3cret'' @ [0])) (JStr (js ''s3cret'')) = Inr True"
  by (simp add: buffer_defs)

text \<open>
  C9. Whenever one of the two arguments is not a string, \<open>secureTokenCompare\<close> is false,
  also on twice the same non-string value; so an \<open>auth\<close> message whose \<open>token\<close> is
  missing (\<open>undefined\<close>) or not a string leaves a session that is not authenticated as
  such.
\<close>

theorem non_string_token_never_authenticates:
  "((\<not> is_string a \<or> \<not> is_string b) \<longrightarrow> secureTokenCompare a b = Inr False)
   \<and> (\<not> authenticated s \<and> get_prop m (js ''type'') = Inr (JStr (js ''auth''))
        \<and> get_prop m (js ''token'') = Inr tok \<and> \<not> is_string tok
      \<longrightarrow> \<not> authenticated (snd (on_message co s (Parsed m) resized)))"
proof -
  have cmp: "secureTokenCompare x y = Inr False" if "\<not> is_string x \<or> \<not> is_string y" for x y
    using that by (cases x; cases y) simp_all
  have "\<not> authenticated (snd (on_message co s (Parsed m) resized))"
    if "\<not> authenticated s" and "get_prop m (js ''type'') = Inr (JStr (js ''auth''))"
      and "get_prop m (js ''token'') = Inr tok" and "\<not> is_string tok"
    using that cmp [of tok]
    by (auto simp: on_message_def handle_auth_def split: option.splits sum.splits)
  with cmp [of a b] show ?thesis by blast
qed

text \<open>
  At \<open>null\<close> against \<open>null\<close>, and at the message \<open>{type: 'auth'}\<close> with no token sent to a
  session that waits for the secret \<open>s3cret\<close>.
\<close>

theorem non_string_token_never_authenticates_witness:
  "secureTokenCompare JNull JNull = Inr False
   \<and> \<not> authenticated (init_session (Some (js ''s3cret'')))
   \<and> \<not> authenticated (snd (on_message example_coercions (init_session (Some (js ''s3cret'')))
         (Parsed (JObj [(js ''type'', JStr (js ''auth''))])) True))"
proof -
  have u: "\<not> authenticated (init_session (Some (js ''s3cret'')))"
    by (simp add: init_session_def js_def)
  have t: "get_prop (JObj [(js ''type'', JStr (js ''auth''))]) (js ''type'') = Inr (JStr (js ''auth''))"
    by (simp add: js_def)
  have k: "get_prop (JObj [(js ''type'', JStr (js ''auth''))]) (js ''token'') = Inr JUndefined"
    by (simp add: js_def)
  show ?thesis
    using non_string_token_never_authenticates
            [where a = JNull and b = JNull and s = "init_session (Some (js ''s3cret''))"
               and m = "JObj [(js ''type'', JStr (js ''auth''))]" and tok = JUndefined
               and co = example_coercions and resized = True] u t k
    by simp
qed

section \<open>Tailscale addresses\<close>

lemma isTailscaleIP_boundaries:
  "isTailscaleIP (js ''100.64.0.0'')" "isTailscaleIP (js ''100.127.255.255'')"
  "\<not> isTailscaleIP (js ''100.63.255.255'')" "\<not> isTailscaleIP (js ''100.128.0.0'')"
  "\<not> isTailscaleIP (js ''localhost'')" "\<not> isTailscaleIP (js ''100.64.0'')"
  by (simp_all add: isTailscaleIP_def js_def parseInt_def StrWhiteSpaceChar_def is_digit_def
        digits_value_def)

text \<open>
  C8. Specified: \<open>isTailscaleIP\<close> accepts an address iff its first octet is 100 and its
  second octet is between 64 and 127, and rejects every string that is not shaped as an
  IPv4 address. The code counts the parts between dots and reads the first two with
  \<open>parseInt\<close>; it never looks at the last two parts. The host name \<open>100.64.evil.com\<close> is
  accepted.
\<close>

theorem isTailscaleIP_accepts_host_name:
  "isTailscaleIP (js ''100.64.evil.com'')"
  by (simp add: isTailscaleIP_def js_def parseInt_def StrWhiteSpaceChar_def is_digit_def
        digits_value_def)

section \<open>Authentication\<close>

lemma js_type_distinct:
  "js ''input'' \<noteq> js ''auth''" "js ''resize'' \<noteq> js ''auth''" "js ''resize'' \<noteq> js ''input''"
  by (simp_all add: js_def)

text \<open>
  What an \<open>auth\<close> message does to a session that waits for the secret: it follows the
  result of \<open>secureTokenCompare\<close>. When the timer fires first, the connection is closed.
\<close>

lemma auth_follows_comparison:
  assumes "AUTH_TOKEN s = Some secret" and "secret \<noteq> []" and "\<not> authenticated s"
    and "get_prop m (js ''type'') = Inr (JStr (js ''auth''))"
    and "get_prop m (js ''token'') = Inr tok"
  shows "on_message co s (Parsed m) resized =
           (if secureTokenCompare tok (JStr secret) = Inr True
            then ([ClearTimeout, Log ''Client authenticated successfully'',
                   WsSend (Connected ''Authentication successful'')],
                  s\<lparr>authenticated := True, timer_armed := False\<rparr>)
            else ([Log ''Rejected connection: invalid token'',
                   WsClose (Some (4001, ''Unauthorized''))], s))"
  using assms secureTokenCompare_returns [of tok "JStr secret"]
  by (auto simp: on_message_def handle_auth_def split: bool.splits)

lemma auth_timeout_closes:
  assumes "timer_armed s" and "\<not> authenticated s"
  shows "step co s AuthTimerFires =
           ([Log ''Authentication timeout, closing connection'',
             WsClose (Some (4001, ''Authentication timeout''))],
            s\<lparr>timer_armed := False\<rparr>)"
  using assms by (simp add: on_auth_timeout_def)

text \<open>
  C4. Specified: with a secret configured, a matching token authenticates the session,
  cancels the timer and is acknowledged; a token that does not match closes the
  connection with \<open>Unauthorized\<close>; the deadline closes it with \<open>Authentication timeout\<close>.
  The handler decides with \<open>secureTokenCompare\<close>, which takes a token extended by NUL
  characters for the secret: with the secret \<open>s3cret\<close>, the message
  \<open>{type: 'auth', token: 's3cret\u0000'}\<close> authenticates the session and is acknowledged,
  where the specification has the connection closed.
\<close>

theorem auth_accepts_nul_extended_token:
  "js ''s3cret'' @ [0] \<noteq> js ''s3cret''
   \<and> on_message example_coercions (init_session (Some (js ''s3cret'')))
         (auth_message (js ''s3cret'' @ [0])) True
       = ([ClearTimeout, Log ''Client authenticated successfully'',
           WsSend (Connected ''Authentication successful'')],
          (init_session (Some (js ''s3cret'')))\<lparr>authenticated := True, timer_armed := False\<rparr>)"
  by (simp add: on_message_def auth_message_def handle_auth_def init_session_def buffer_defs)

text \<open>
  Before authentication every non-auth message returns at the guard, one message or many.
\<close>

lemma on_message_non_auth:
  assumes "\<not> authenticated s" and "non_auth p"
  shows "on_message co s p resized = ([], s)"
  using assms by (cases p) (auto simp: non_auth_def on_message_def split: sum.splits)

lemma run_non_auth:
  assumes "\<not> authenticated s" and "list_all non_auth (map fst pbs)"
  shows "run co s (map (\<lambda>pb. WsMessage (fst pb) (snd pb)) pbs) = ([], s)"
  using assms(2)
proof (induction pbs)
  case Nil
  then show ?case by simp
next
  case (Cons pb pbs)
  then show ?case using on_message_non_auth [OF assms(1), of "fst pb" co "snd pb"] by simp
qed

text \<open>
  C2. While a session that requires a secret is not authenticated, every non-auth
  message (\<open>input\<close>, \<open>resize\<close> or of unknown type) is dropped in silence: the handler
  returns before it reaches the branch of the message, nothing is sent, closed or logged,
  and the session is unchanged, so that no PTY exists afterwards either. This holds for
  one message and for any sequence of them.
\<close>

theorem unauthenticated_non_auth_dropped:
  assumes "token_required (AUTH_TOKEN s)" and "\<not> authenticated s"
  shows "(non_auth p \<longrightarrow> on_message co s p resized = ([], s))
       \<and> (list_all non_auth (map fst pbs) \<longrightarrow>
            run co s (map (\<lambda>pb. WsMessage (fst pb) (snd pb)) pbs) = ([], s))"
  using assms on_message_non_auth run_non_auth by blast

text \<open>
  At a fresh session that waits for the secret \<open>s3cret\<close>: a \<open>resize\<close> to 80 by 24, and an
  \<open>input\<close> followed by that \<open>resize\<close>.
\<close>

theorem unauthenticated_non_auth_dropped_witness:
  "token_required (AUTH_TOKEN (init_session (Some (js ''s3cret''))))
   \<and> \<not> authenticated (init_session (Some (js ''s3cret'')))
   \<and> non_auth (resize_message 80 24)
   \<and> list_all non_auth [input_message (js ''ls''), resize_message 80 24]
   \<and> on_message example_coercions (init_session (Some (js ''s3cret''))) (resize_message 80 24) True
       = ([], init_session (Some (js ''s3cret'')))
   \<and> run example_coercions (init_session (Some (js ''s3cret'')))
         [WsMessage (input_message (js ''ls'')) True, WsMessage (resize_message 80 24) True]
       = ([], init_session (Some (js ''s3cret'')))"
proof -
  have t: "token_required (AUTH_TOKEN (init_session (Some (js ''s3cret''))))"
    by (simp add: init_session_def js_def)
  have u: "\<not> authenticated (init_session (Some (js ''s3cret'')))"
    by (simp add: init_session_def js_def)
  have n1: "non_auth (resize_message 80 24)"
    by (simp add: non_auth_def message_defs js_def)
  have n2: "list_all non_auth [input_message (js ''ls''), resize_message 80 24]"
    by (simp add: non_auth_def message_defs js_def)
  note th = unauthenticated_non_auth_dropped
              [OF t u, where p = "resize_message 80 24" and co = example_coercions
                 and resized = True
                 and pbs = "[(input_message (js ''ls''), True), (resize_message 80 24, True)]"]
  from th n1
  have one: "on_message example_coercions (init_session (Some (js ''s3cret'')))
               (resize_message 80 24) True = ([], init_session (Some (js ''s3cret'')))"
    by blast
  from n2 have "list_all non_auth
                  (map fst [(input_message (js ''ls''), True), (resize_message 80 24, True)])"
    by simp
  with th
  have "run example_coercions (init_session (Some (js ''s3cret'')))
          (map (\<lambda>pb. WsMessage (fst pb) (snd pb))
             [(input_message (js ''ls''), True), (resize_message 80 24, True)])
        = ([], init_session (Some (js ''s3cret'')))"
    by blast
  then have many: "run example_coercions (init_session (Some (js ''s3cret'')))
         [WsMessage (input_message (js ''ls'')) True, WsMessage (resize_message 80 24) True]
       = ([], init_session (Some (js ''s3cret'')))"
    by simp
  show ?thesis using t u n1 n2 one many by blast
qed

section \<open>Admission\<close>

text \<open>
  C3. Specified: at most one session per source identity; a new connection from an
  identity that holds a session closes the old connection. \<open>handleConnection\<close> never
  reads the remote address and keeps no registry of connections by identity: two
  connections from \<open>100.64.0.1\<close> are both admitted, nothing is called on the first
  WebSocket when the second arrives, and both count as active.
\<close>

theorem handleConnection_admits_second_connection_of_same_address:
  "handleConnection (\<lambda>_. None) None 1 tailscale_request initial_server
     = ([(1, Log ''Client connected''), (1, WsSend (Connected ''PTY initialized''))],
        \<lparr>activeConnections = 1, connections = [(1, init_session None)]\<rparr>)
   \<and> handleConnection (\<lambda>_. None) None 2 tailscale_request
        \<lparr>activeConnections = 1, connections = [(1, init_session None)]\<rparr>
     = ([(2, Log ''Client connected''), (2, WsSend (Connected ''PTY initialized''))],
        \<lparr>activeConnections = 2,
          connections = [(1, init_session None), (2, init_session None)]\<rparr>)"
  by (simp add: handleConnection_def isAllowedOrigin_def initial_server_def
        tailscale_request_def MAX_CONNECTIONS_def connect_effects_def)

section \<open>Heartbeat\<close>

text \<open>The calls made before the \<open>try\<close> block throws: none, or the resize that threw.\<close>

lemma try_message_thrown:
  assumes "try_message co s p resized = Inl (fx, err)"
  shows "fx = [] \<or> (\<exists>h c r. fx = [PtyResize h c r])"
proof (cases p)
  case Malformed
  with assms show ?thesis by simp
next
  case (Parsed m)
  with assms show ?thesis
    by (auto simp: handle_auth_def handle_input_def handle_resize_def setupPTY_def
             split: sum.splits if_splits option.splits bool.splits)
qed

lemma try_message_no_probe:
  "try_message co s p resized = Inr (fx, s') \<Longrightarrow> WsPing \<notin> set fx \<and> WsTerminate \<notin> set fx"
  by (cases p)
     (auto simp: handle_auth_def handle_input_def handle_resize_def setupPTY_def
           split: sum.splits if_splits option.splits bool.splits)

lemma step_no_probe:
  "WsPing \<notin> set (fst (step co s e)) \<and> WsTerminate \<notin> set (fst (step co s e))"
proof (cases e)
  case (WsMessage p resized)
  show ?thesis
  proof (cases "try_message co s p resized")
    case (Inl thrown)
    obtain fx err where "thrown = (fx, err)" by (cases thrown)
    with Inl WsMessage try_message_thrown [of co s p resized fx err] show ?thesis
      by (auto simp: on_message_def)
  next
    case (Inr res)
    obtain fx s' where "res = (fx, s')" by (cases res)
    with Inr WsMessage try_message_no_probe [of co s p resized fx s'] show ?thesis
      by (simp add: on_message_def)
  qed
qed (auto simp: on_close_def on_error_def on_auth_timeout_def on_pty_data_def on_pty_exit_def
      split: option.splits)

text \<open>
  C5. Specified: every session runs a heartbeat that counts missed pongs and terminates
  the transport once too many are missed. The connection handler arms one timer only, the
  authentication timeout, and registers handlers for \<open>message\<close>, \<open>close\<close> and \<open>error\<close>
  only: whatever events a connection sees and however long it lives, it never sends a
  ping and never terminates the transport.
\<close>

theorem connection_never_pings_nor_terminates:
  "WsPing \<notin> set (fst (run co s evs)) \<and> WsTerminate \<notin> set (fst (run co s evs))"
proof (induction evs arbitrary: s)
  case Nil
  then show ?case by simp
next
  case (Cons e es)
  obtain fx s' where st: "step co s e = (fx, s')" by (cases "step co s e")
  obtain fx' s'' where rn: "run co s' es = (fx', s'')" by (cases "run co s' es")
  from step_no_probe [of co s e] st have a: "WsPing \<notin> set fx \<and> WsTerminate \<notin> set fx" by simp
  from Cons.IH [of s'] rn have b: "WsPing \<notin> set fx' \<and> WsTerminate \<notin> set fx'" by simp
  show ?case using st rn a b by simp
qed

text \<open>
  At a connection that needs no token and sees nothing but an error event: no timer is
  armed, so no callback is left to run.
\<close>

theorem connection_never_pings_nor_terminates_witness:
  "\<not> timer_armed (init_session None)
   \<and> WsPing \<notin> set (fst (run example_coercions (init_session None) [WsErrorEv]))
   \<and> WsTerminate \<notin> set (fst (run example_coercions (init_session None) [WsErrorEv]))"
proof -
  have "\<not> timer_armed (init_session None)"
    by (simp add: init_session_def)
  with connection_never_pings_nor_terminates
         [of example_coercions "init_session None" "[WsErrorEv]"]
  show ?thesis by blast
qed

section \<open>PTY lifecycle\<close>

lemma on_message_resize:
  assumes "authenticated s" and "resize_request co p = Some (c, r)"
  shows "on_message co s p resized =
           (case ptyProcess s of
              None \<Rightarrow> ([PtySpawn (spawned s) c r, Log ''PTY created''],
                        s\<lparr>ptyProcess := Some (spawned s), spawned := Suc (spawned s)\<rparr>)
            | Some h \<Rightarrow>
                (if resized then ([PtyResize h c r, Log ''PTY resized''], s)
                 else (PtyResize h c r # catch_effects, s)))"
proof (cases p)
  case Malformed
  with assms show ?thesis by (simp add: resize_request_def)
next
  case (Parsed m)
  with assms(2) have ty: "get_prop m (js ''type'') = Inr (JStr (js ''resize''))"
    by (auto simp: resize_request_def split: if_splits)
  from assms(2) Parsed ty obtain cv rv where
    cv: "get_prop m (js ''cols'') = Inr cv" and rv: "get_prop m (js ''rows'') = Inr rv"
    and c: "Number co cv = Inr c" and r: "Number co rv = Inr r" and v: "valid_dimensions c r"
    by (auto simp: resize_request_def split: sum.splits if_splits)
  show ?thesis
    using assms(1) Parsed ty cv rv c r v js_type_distinct
    by (simp add: on_message_def handle_resize_def setupPTY_def catch_effects_def
          split: option.splits)
qed

lemma on_message_input:
  assumes "authenticated s" and "input_request p = Some d"
  shows "on_message co s p resized =
           (case ptyProcess s of None \<Rightarrow> ([], s) | Some h \<Rightarrow> ([PtyWrite h d], s))"
proof (cases p)
  case Malformed
  with assms show ?thesis by (simp add: input_request_def)
next
  case (Parsed m)
  with assms(2) have ty: "get_prop m (js ''type'') = Inr (JStr (js ''input''))"
    by (auto simp: input_request_def split: if_splits)
  from assms(2) Parsed ty have d: "get_prop m (js ''data'') = Inr (JStr d)"
    and v: "validateInput (JStr d) = Inr ()"
    by (auto simp: input_request_def split: sum.splits jsval.splits if_splits)
  show ?thesis
    using assms(1) Parsed ty d v js_type_distinct
    by (simp add: on_message_def handle_input_def split: option.splits)
qed

text \<open>
  Where a spawn can come from: only a valid resize request, handled by an authenticated
  session that holds no PTY, and the session holds the new handle afterwards.
\<close>

lemma try_message_spawn:
  assumes "try_message co s p resized = Inr (fx, s')"
  shows "(\<forall>h c r. PtySpawn h c r \<in> set fx \<longrightarrow>
            ptyProcess s = None \<and> authenticated s \<and> resize_request co p = Some (c, r)
            \<and> fx = [PtySpawn (spawned s) c r, Log ''PTY created'']
            \<and> ptyProcess s' = Some h)
         \<and> (ptyProcess s \<noteq> None \<longrightarrow> ptyProcess s' = ptyProcess s)
         \<and> length (filter is_spawn fx) \<le> 1"
proof (cases p)
  case Malformed
  with assms show ?thesis by simp
next
  case (Parsed m)
  with assms show ?thesis
    by (auto simp: handle_auth_def handle_input_def handle_resize_def setupPTY_def
                   resize_request_def js_type_distinct
             split: sum.splits if_splits option.splits bool.splits)
qed

lemma step_spawn:
  assumes "step co s e = (fx, s')"
  shows "(\<forall>h c r. PtySpawn h c r \<in> set fx \<longrightarrow>
            (\<exists>p resized. e = WsMessage p resized \<and> resize_request co p = Some (c, r))
            \<and> ptyProcess s = None \<and> authenticated s \<and> ptyProcess s' = Some h)
         \<and> (ptyProcess s \<noteq> None \<and> e \<noteq> WsCloseEv \<longrightarrow> ptyProcess s' = ptyProcess s)
         \<and> length (filter is_spawn fx) \<le> 1"
proof (cases e)
  case (WsMessage p resized)
  show ?thesis
  proof (cases "try_message co s p resized")
    case (Inl thrown)
    obtain fx0 err where "thrown = (fx0, err)" by (cases thrown)
    with Inl WsMessage assms try_message_thrown [of co s p resized fx0 err] show ?thesis
      by (auto simp: on_message_def)
  next
    case (Inr res)
    with WsMessage assms have "try_message co s p resized = Inr (fx, s')"
      by (simp add: on_message_def)
    from try_message_spawn [OF this] WsMessage show ?thesis by blast
  qed
qed (use assms in \<open>auto simp: on_close_def on_error_def on_auth_timeout_def on_pty_data_def
      on_pty_exit_def split: option.splits if_splits\<close>)

lemma filter_spawn_member: "filter is_spawn fx \<noteq> [] \<Longrightarrow> \<exists>h c r. PtySpawn h c r \<in> set fx"
proof (induction fx)
  case Nil
  then show ?case by simp
next
  case (Cons x xs)
  then show ?case by (cases x) auto
qed

text \<open>Over the life of a connection: one spawn at most, none once a PTY is held.\<close>

lemma run_spawn_count:
  "length (filter is_spawn (fst (run co s evs))) \<le> (if ptyProcess s = None then 1 else 0)"
proof (induction evs arbitrary: s)
  case Nil
  then show ?case by simp
next
  case (Cons e es)
  obtain fx s' where st: "step co s e = (fx, s')" by (cases "step co s e")
  obtain fx' s'' where rn: "run co s' es = (fx', s'')" by (cases "run co s' es")
  note sp = step_spawn [OF st]
  have ih: "length (filter is_spawn fx') \<le> (if ptyProcess s' = None then 1 else 0)"
    using Cons.IH [of s'] rn by simp
  show ?case
  proof (cases "e = WsCloseEv")
    case True
    with st have "filter is_spawn fx = []"
      by (auto simp: on_close_def split: option.splits)
    with True st show ?thesis by simp
  next
    case False
    show ?thesis
    proof (cases "filter is_spawn fx = []")
      case True
      have "ptyProcess s \<noteq> None \<Longrightarrow> ptyProcess s' \<noteq> None"
        using sp False by auto
      with True ih st rn False show ?thesis by (auto split: if_splits)
    next
      case nonempty: False
      then obtain h c r where mem: "PtySpawn h c r \<in> set fx"
        using filter_spawn_member by blast
      with sp have "ptyProcess s = None" and "ptyProcess s' = Some h" by blast+
      with ih have "filter is_spawn fx' = []" by simp
      moreover from sp have "length (filter is_spawn fx) \<le> 1" by blast
      ultimately show ?thesis using st rn False \<open>ptyProcess s = None\<close> by simp
    qed
  qed
qed

lemma run_no_respawn:
  assumes "ptyProcess s \<noteq> None"
  shows "filter is_spawn (fst (run co s evs)) = []"
  using run_spawn_count [of co s evs] assms by simp

lemma step_keeps_handle:
  assumes "ptyProcess s = Some h" and "e \<noteq> WsCloseEv"
  shows "ptyProcess (snd (step co s e)) = Some h \<and> PtyKill h \<notin> set (fst (step co s e))"
proof -
  obtain fx s' where st: "step co s e = (fx, s')" by (cases "step co s e")
  from step_spawn [OF st] assms have keep: "ptyProcess s' = Some h" by simp
  have "PtyKill h \<notin> set fx"
  proof (cases e)
    case (WsMessage p resized)
    show ?thesis
    proof (cases p)
      case Malformed
      with WsMessage st show ?thesis by (auto simp: on_message_def)
    next
      case (Parsed m)
      with WsMessage st show ?thesis
        by (auto simp: on_message_def handle_auth_def handle_input_def handle_resize_def
                       setupPTY_def
                 split: sum.splits if_splits option.splits bool.splits)
    qed
  qed (use st assms in \<open>auto simp: on_error_def on_auth_timeout_def on_pty_data_def
        on_pty_exit_def split: if_splits\<close>)
  with keep st show ?thesis by simp
qed

text \<open>The states that a connection reaches from its start satisfy \<open>session_inv\<close>.\<close>

lemma try_message_inv:
  assumes "try_message co s p resized = Inr (fx, s')" and "session_inv s"
  shows "session_inv s'"
proof (cases p)
  case Malformed
  with assms show ?thesis by simp
next
  case (Parsed m)
  with assms show ?thesis
    by (auto simp: session_inv_def handle_auth_def handle_input_def handle_resize_def
                   setupPTY_def
             split: sum.splits if_splits option.splits bool.splits)
qed

lemma step_inv:
  assumes "session_inv s"
  shows "session_inv (snd (step co s e))"
proof (cases e)
  case (WsMessage p resized)
  show ?thesis
  proof (cases "try_message co s p resized")
    case (Inl thrown)
    with WsMessage assms show ?thesis by (simp add: on_message_def case_prod_beta)
  next
    case (Inr res)
    obtain fx s' where "res = (fx, s')" by (cases res)
    with Inr WsMessage try_message_inv [of co s p resized fx s'] assms show ?thesis
      by (simp add: on_message_def)
  qed
qed (use assms in \<open>auto simp: session_inv_def on_close_def on_error_def on_auth_timeout_def
      on_pty_data_def on_pty_exit_def split: option.splits\<close>)

lemma run_inv:
  assumes "session_inv s"
  shows "session_inv (snd (run co s evs))"
  using assms
proof (induction evs arbitrary: s)
  case Nil
  then show ?case by simp
next
  case (Cons e es)
  from step_inv [OF Cons.prems, of co e] have st: "session_inv (snd (step co s e))" .
  show ?case
  proof (cases "e = WsCloseEv")
    case True
    with st show ?thesis by (simp add: case_prod_beta)
  next
    case False
    with Cons.IH [OF st] show ?thesis by (simp add: case_prod_beta)
  qed
qed

lemma reachable_inv: "session_inv (snd (run co (init_session token) evs))"
  by (rule run_inv) (simp add: session_inv_def init_session_def)

text \<open>
  C6. A session spawns a PTY at most once in its life, and only for a client's resize
  request: every spawn is the answer to a valid resize message and has the dimensions of
  that message; a valid resize handled while no PTY exists spawns exactly one PTY of
  these dimensions; a valid resize handled while a PTY exists calls \<open>resize\<close> on that PTY
  with these dimensions, spawns nothing and leaves the session as it is, whether the call
  returns (the resize is logged) or throws (the \<open>catch\<close> block answers with the error
  envelope).
\<close>

theorem pty_spawned_at_most_once:
  "length (filter is_spawn (fst (run co (init_session token) evs))) \<le> 1
   \<and> (PtySpawn h c r \<in> set (fst (step co s e)) \<longrightarrow>
        (\<exists>p resized. e = WsMessage p resized \<and> resize_request co p = Some (c, r)))
   \<and> (authenticated s \<and> resize_request co p = Some (c, r) \<and> ptyProcess s = None \<longrightarrow>
        on_message co s p resized =
          ([PtySpawn (spawned s) c r, Log ''PTY created''],
           s\<lparr>ptyProcess := Some (spawned s), spawned := Suc (spawned s)\<rparr>))
   \<and> (authenticated s \<and> resize_request co p = Some (c, r) \<and> ptyProcess s = Some h' \<longrightarrow>
        on_message co s p resized =
          (if resized then ([PtyResize h' c r, Log ''PTY resized''], s)
           else (PtyResize h' c r # catch_effects, s)))"
proof -
  have a: "length (filter is_spawn (fst (run co (init_session token) evs))) \<le> 1"
    using run_spawn_count [of co "init_session token" evs] by (simp split: if_splits)
  have b: "PtySpawn h c r \<in> set (fst (step co s e)) \<longrightarrow>
        (\<exists>p resized. e = WsMessage p resized \<and> resize_request co p = Some (c, r))"
    using step_spawn [of co s e "fst (step co s e)" "snd (step co s e)"] by simp
  have c: "on_message co s p resized =
          ([PtySpawn (spawned s) c r, Log ''PTY created''],
           s\<lparr>ptyProcess := Some (spawned s), spawned := Suc (spawned s)\<rparr>)"
    if "authenticated s" and "resize_request co p = Some (c, r)" and "ptyProcess s = None"
    using on_message_resize [OF that(1,2), of resized] that(3) by simp
  have d: "on_message co s p resized =
          (if resized then ([PtyResize h' c r, Log ''PTY resized''], s)
           else (PtyResize h' c r # catch_effects, s))"
    if "authenticated s" and "resize_request co p = Some (c, r)" and "ptyProcess s = Some h'"
    using on_message_resize [OF that(1,2), of resized] that(3) by simp
  show ?thesis using a b c d by blast
qed

text \<open>
  At a connection that needs no token: the resize to 80 by 24 spawns PTY 0 with 80
  columns and 24 rows; a second resize to 120 by 40 calls \<open>resize\<close> on PTY 0, is logged
  when the call returns and answered with the error envelope when it throws; the run of
  both messages spawns once.
\<close>

theorem pty_spawned_at_most_once_witness:
  "authenticated (init_session None) \<and> ptyProcess (init_session None) = None
   \<and> resize_request example_coercions (resize_message 80 24) = Some (Fin 80, Fin 24)
   \<and> on_message example_coercions (init_session None) (resize_message 80 24) True
       = ([PtySpawn 0 (Fin 80) (Fin 24), Log ''PTY created''], session_with_pty)
   \<and> PtySpawn 0 (Fin 80) (Fin 24)
       \<in> set (fst (step example_coercions (init_session None)
                    (WsMessage (resize_message 80 24) True)))
   \<and> (\<exists>p resized. WsMessage (resize_message 80 24) True = WsMessage p resized
          \<and> resize_request example_coercions p = Some (Fin 80, Fin 24))
   \<and> authenticated session_with_pty \<and> ptyProcess session_with_pty = Some 0
   \<and> resize_request example_coercions (resize_message 120 40) = Some (Fin 120, Fin 40)
   \<and> on_message example_coercions session_with_pty (resize_message 120 40) True
       = ([PtyResize 0 (Fin 120) (Fin 40), Log ''PTY resized''], session_with_pty)
   \<and> on_message example_coercions session_with_pty (resize_message 120 40) False
       = ([PtyResize 0 (Fin 120) (Fin 40), Log ''Message handling error'',
           WsSend (ErrorEnv ''Failed to process request'')], session_with_pty)
   \<and> length (filter is_spawn (fst (run example_coercions (init_session None)
         [WsMessage (resize_message 80 24) True, WsMessage (resize_message 120 40) True])))
       \<le> 1"
proof -
  have a: "authenticated (init_session None)" and p: "ptyProcess (init_session None) = None"
    by (simp_all add: init_session_def)
  have a': "authenticated session_with_pty" and p': "ptyProcess session_with_pty = Some 0"
    by (simp_all add: session_with_pty_def init_session_def)
  have r: "resize_request example_coercions (resize_message 80 24) = Some (Fin 80, Fin 24)"
    by (simp add: resize_request_def resize_message_def js_def valid_dimensions_def
          example_coercions_def)
  have r': "resize_request example_coercions (resize_message 120 40) = Some (Fin 120, Fin 40)"
    by (simp add: resize_request_def resize_message_def js_def valid_dimensions_def
          example_coercions_def)
  have s: "(init_session None)\<lparr>ptyProcess := Some 0, spawned := Suc 0\<rparr> = session_with_pty"
    by (simp add: session_with_pty_def)
  have z: "spawned (init_session None) = 0"
    by (simp add: init_session_def)
  note th = pty_spawned_at_most_once
              [where co = example_coercions and token = None
                 and evs = "[WsMessage (resize_message 80 24) True,
                             WsMessage (resize_message 120 40) True]"
                 and s = "init_session None" and p = "resize_message 80 24"
                 and resized = True
                 and e = "WsMessage (resize_message 80 24) True"
                 and h = 0 and c = "Fin 80" and r = "Fin 24"]
  from th a p r
  have "on_message example_coercions (init_session None) (resize_message 80 24) True
          = ([PtySpawn (spawned (init_session None)) (Fin 80) (Fin 24), Log ''PTY created''],
             (init_session None)\<lparr>ptyProcess := Some (spawned (init_session None)),
               spawned := Suc (spawned (init_session None))\<rparr>)"
    by blast
  then have m: "on_message example_coercions (init_session None) (resize_message 80 24) True
          = ([PtySpawn 0 (Fin 80) (Fin 24), Log ''PTY created''], session_with_pty)"
    unfolding z s .
  then have mem: "PtySpawn 0 (Fin 80) (Fin 24)
       \<in> set (fst (step example_coercions (init_session None)
                    (WsMessage (resize_message 80 24) True)))"
    by simp
  with th have ex: "\<exists>p resized. WsMessage (resize_message 80 24) True = WsMessage p resized
          \<and> resize_request example_coercions p = Some (Fin 80, Fin 24)"
    by blast
  from th have n: "length (filter is_spawn (fst (run example_coercions (init_session None)
         [WsMessage (resize_message 80 24) True, WsMessage (resize_message 120 40) True])))
       \<le> 1"
    by blast
  from pty_spawned_at_most_once
         [where co = example_coercions and s = session_with_pty and p = "resize_message 120 40"
            and resized = True and c = "Fin 120" and r = "Fin 40" and h' = 0] a' p' r'
  have "on_message example_coercions session_with_pty (resize_message 120 40) True
       = (if True then ([PtyResize 0 (Fin 120) (Fin 40), Log ''PTY resized''], session_with_pty)
          else (PtyResize 0 (Fin 120) (Fin 40) # catch_effects, session_with_pty))"
    by blast
  then have m': "on_message example_coercions session_with_pty (resize_message 120 40) True
       = ([PtyResize 0 (Fin 120) (Fin 40), Log ''PTY resized''], session_with_pty)"
    by simp
  from pty_spawned_at_most_once
         [where co = example_coercions and s = session_with_pty and p = "resize_message 120 40"
            and resized = False and c = "Fin 120" and r = "Fin 40" and h' = 0] a' p' r'
  have "on_message example_coercions session_with_pty (resize_message 120 40) False
       = (if False then ([PtyResize 0 (Fin 120) (Fin 40), Log ''PTY resized''], session_with_pty)
          else (PtyResize 0 (Fin 120) (Fin 40) # catch_effects, session_with_pty))"
    by blast
  then have m'': "on_message example_coercions session_with_pty (resize_message 120 40) False
       = ([PtyResize 0 (Fin 120) (Fin 40), Log ''Message handling error'',
           WsSend (ErrorEnv ''Failed to process request'')], session_with_pty)"
    by (simp add: catch_effects_def)
  show ?thesis using a p r m mem ex a' p' r' m' m'' n by blast
qed

text \<open>
  C7, as specified: an authenticated session with no PTY answers no input
  message with an error envelope. The handler validates the data before it looks for a
  PTY, so the input message with the empty string as data is answered with the error
  envelope.
\<close>

theorem input_without_pty_counterexample:
  "authenticated (init_session None) \<and> ptyProcess (init_session None) = None
   \<and> on_message example_coercions (init_session None) (input_message []) True
       = ([Log ''Message handling error'', WsSend (ErrorEnv ''Failed to process request'')],
          init_session None)"
  by (simp add: init_session_def on_message_def handle_input_def message_defs js_def)

text \<open>
  C7, amended. In an authenticated session with no PTY, no input message reaches a
  subprocess and none changes the session. An input message whose data passes the input
  validation is dropped in silence; one whose data fails it is answered with the generic
  error envelope.
\<close>

theorem input_without_pty:
  assumes "authenticated s" and "ptyProcess s = None"
    and "get_prop m (js ''type'') = Inr (JStr (js ''input''))"
    and "get_prop m (js ''data'') = Inr d"
  shows "(\<forall>h x. PtyWrite h x \<notin> set (fst (on_message co s (Parsed m) resized)))
       \<and> snd (on_message co s (Parsed m) resized) = s
       \<and> (validateInput d = Inr () \<longrightarrow> on_message co s (Parsed m) resized = ([], s))
       \<and> (validateInput d \<noteq> Inr () \<longrightarrow>
            on_message co s (Parsed m) resized
              = ([Log ''Message handling error'', WsSend (ErrorEnv ''Failed to process request'')], s))"
  using assms js_type_distinct
  by (cases "validateInput d") (auto simp: on_message_def handle_input_def)

text \<open>
  At a connection that needs no token, before any resize: the input \<open>ls\<close> is dropped, and
  an input with a null character in it is answered with the error envelope.
\<close>

theorem input_without_pty_witness:
  "authenticated (init_session None) \<and> ptyProcess (init_session None) = None
   \<and> validateInput (JStr (js ''ls'')) = Inr ()
   \<and> on_message example_coercions (init_session None) (input_message (js ''ls'')) True
       = ([], init_session None)
   \<and> validateInput (JStr (js ''a'' @ [0])) \<noteq> Inr ()
   \<and> on_message example_coercions (init_session None) (input_message (js ''a'' @ [0])) True
       = ([Log ''Message handling error'', WsSend (ErrorEnv ''Failed to process request'')],
          init_session None)"
proof -
  have a: "authenticated (init_session None)" and p: "ptyProcess (init_session None) = None"
    by (simp_all add: init_session_def)
  have t: "get_prop (JObj [(js ''type'', JStr (js ''input'')), (js ''data'', JStr d)])
             (js ''type'') = Inr (JStr (js ''input''))" for d
    by (simp add: js_def)
  have d: "get_prop (JObj [(js ''type'', JStr (js ''input'')), (js ''data'', JStr d)])
             (js ''data'') = Inr (JStr d)" for d
    by (simp add: js_def)
  have v: "validateInput (JStr (js ''ls'')) = Inr ()"
    by (simp add: js_def MAX_INPUT_LENGTH_def)
  have w: "validateInput (JStr (js ''a'' @ [0])) \<noteq> Inr ()"
    by (simp add: js_def MAX_INPUT_LENGTH_def)
  from input_without_pty [OF a p t d, where co = example_coercions and resized = True
                            and d1 = "js ''ls''"] v
  have ok: "on_message example_coercions (init_session None) (input_message (js ''ls'')) True
       = ([], init_session None)"
    unfolding input_message_def by blast
  from input_without_pty [OF a p t d, where co = example_coercions and resized = True
                            and d1 = "js ''a'' @ [0]"] w
  have bad: "on_message example_coercions (init_session None) (input_message (js ''a'' @ [0])) True
       = ([Log ''Message handling error'', WsSend (ErrorEnv ''Failed to process request'')],
          init_session None)"
    unfolding input_message_def by blast
  show ?thesis using a p v w ok bad by blast
qed

text \<open>
  C10. In a session that holds a PTY (such a session is authenticated and the handle
  comes from its own spawn, \<open>reachable_inv\<close>), the exit of the PTY is relayed and changes
  nothing in the session: the handle stays. After the exit, a valid input is still
  written to that handle, and a valid resize still calls \<open>resize\<close> on it, whether the call
  returns or throws on the exited PTY; no run of the session spawns a replacement; no
  event but \<open>close\<close> kills the handle or clears it, and \<open>close\<close> does both.
\<close>

theorem pty_exit_keeps_handle:
  assumes "ptyProcess s = Some h" and "h < spawned s" and "authenticated s"
  shows "step co s (PtyExit exitCode True) = ([Log ''PTY exited'', WsSend (Exit exitCode)], s)
       \<and> (input_request p = Some d \<longrightarrow>
            run co s [PtyExit exitCode True, WsMessage p resized]
              = ([Log ''PTY exited'', WsSend (Exit exitCode), PtyWrite h d], s))
       \<and> (resize_request co p = Some (c, r) \<longrightarrow>
            run co s [PtyExit exitCode True, WsMessage p resized]
              = ([Log ''PTY exited'', WsSend (Exit exitCode), PtyResize h c r]
                   @ (if resized then [Log ''PTY resized''] else catch_effects), s))
       \<and> filter is_spawn (fst (run co s (PtyExit exitCode sent # evs))) = []
       \<and> (e \<noteq> WsCloseEv \<longrightarrow>
            ptyProcess (snd (step co s e)) = Some h \<and> PtyKill h \<notin> set (fst (step co s e)))
       \<and> ptyProcess (snd (step co s WsCloseEv)) = None
       \<and> PtyKill h \<in> set (fst (step co s WsCloseEv))"
proof -
  have ex: "step co s (PtyExit exitCode True) = ([Log ''PTY exited'', WsSend (Exit exitCode)], s)"
    using assms(2) by (simp add: on_pty_exit_def)
  have inp: "run co s [PtyExit exitCode True, WsMessage p resized]
              = ([Log ''PTY exited'', WsSend (Exit exitCode), PtyWrite h d], s)"
    if "input_request p = Some d"
    using ex on_message_input [OF assms(3) that, of co resized] assms(1) by simp
  have res: "run co s [PtyExit exitCode True, WsMessage p resized]
              = ([Log ''PTY exited'', WsSend (Exit exitCode), PtyResize h c r]
                   @ (if resized then [Log ''PTY resized''] else catch_effects), s)"
    if "resize_request co p = Some (c, r)"
    using ex on_message_resize [OF assms(3) that, of resized] assms(1) by simp
  have nosp: "filter is_spawn (fst (run co s (PtyExit exitCode sent # evs))) = []"
    by (rule run_no_respawn) (simp add: assms(1))
  have cl: "ptyProcess (snd (step co s WsCloseEv)) = None
            \<and> PtyKill h \<in> set (fst (step co s WsCloseEv))"
    using assms(1) by (simp add: on_close_def)
  show ?thesis
    using ex inp res nosp cl step_keeps_handle [OF assms(1), of e co] by blast
qed

text \<open>
  At the session that has spawned PTY 0: after the exit with code 0, the input \<open>ls\<close> is
  written to PTY 0; the resize to 120 by 40 calls \<open>resize\<close> on PTY 0 and, the call
  throwing on the exited PTY, is answered with the error envelope; an error event leaves
  the handle, the close event clears it.
\<close>

theorem pty_exit_keeps_handle_witness:
  "ptyProcess session_with_pty = Some 0 \<and> 0 < spawned session_with_pty
   \<and> authenticated session_with_pty
   \<and> input_request (input_message (js ''ls'')) = Some (js ''ls'')
   \<and> run example_coercions session_with_pty
         [PtyExit 0 True, WsMessage (input_message (js ''ls'')) True]
       = ([Log ''PTY exited'', WsSend (Exit 0), PtyWrite 0 (js ''ls'')], session_with_pty)
   \<and> resize_request example_coercions (resize_message 120 40) = Some (Fin 120, Fin 40)
   \<and> run example_coercions session_with_pty
         [PtyExit 0 True, WsMessage (resize_message 120 40) False]
       = ([Log ''PTY exited'', WsSend (Exit 0), PtyResize 0 (Fin 120) (Fin 40),
           Log ''Message handling error'', WsSend (ErrorEnv ''Failed to process request'')],
          session_with_pty)
   \<and> run example_coercions session_with_pty
         [PtyExit 0 True, WsMessage (resize_message 120 40) True]
       = ([Log ''PTY exited'', WsSend (Exit 0), PtyResize 0 (Fin 120) (Fin 40),
           Log ''PTY resized''], session_with_pty)
   \<and> WsErrorEv \<noteq> WsCloseEv
   \<and> ptyProcess (snd (step example_coercions session_with_pty WsErrorEv)) = Some 0
   \<and> ptyProcess (snd (step example_coercions session_with_pty WsCloseEv)) = None"
proof -
  have a: "ptyProcess session_with_pty = Some 0" and b: "0 < spawned session_with_pty"
    and c: "authenticated session_with_pty"
    by (simp_all add: session_with_pty_def init_session_def)
  have i: "input_request (input_message (js ''ls'')) = Some (js ''ls'')"
    by (simp add: input_request_def input_message_def js_def MAX_INPUT_LENGTH_def)
  have r: "resize_request example_coercions (resize_message 120 40) = Some (Fin 120, Fin 40)"
    by (simp add: resize_request_def resize_message_def js_def valid_dimensions_def
          example_coercions_def)
  have e: "WsErrorEv \<noteq> WsCloseEv"
    by simp
  from pty_exit_keeps_handle
         [OF a b c, where co = example_coercions and exitCode = 0 and resized = True
            and p = "input_message (js ''ls'')" and d = "js ''ls''" and e = WsErrorEv] i e
  have rn: "run example_coercions session_with_pty
              [PtyExit 0 True, WsMessage (input_message (js ''ls'')) True]
            = ([Log ''PTY exited'', WsSend (Exit 0), PtyWrite 0 (js ''ls'')], session_with_pty)"
    and keep: "ptyProcess (snd (step example_coercions session_with_pty WsErrorEv)) = Some 0"
    and cl: "ptyProcess (snd (step example_coercions session_with_pty WsCloseEv)) = None"
    by blast+
  from pty_exit_keeps_handle
         [OF a b c, where co = example_coercions and exitCode = 0 and resized = False
            and p = "resize_message 120 40" and c = "Fin 120" and r = "Fin 40"] r
  have "run example_coercions session_with_pty
         [PtyExit 0 True, WsMessage (resize_message 120 40) False]
       = ([Log ''PTY exited'', WsSend (Exit 0), PtyResize 0 (Fin 120) (Fin 40)]
            @ (if False then [Log ''PTY resized''] else catch_effects), session_with_pty)"
    by blast
  then have rf: "run example_coercions session_with_pty
         [PtyExit 0 True, WsMessage (resize_message 120 40) False]
       = ([Log ''PTY exited'', WsSend (Exit 0), PtyResize 0 (Fin 120) (Fin 40),
           Log ''Message handling error'', WsSend (ErrorEnv ''Failed to process request'')],
          session_with_pty)"
    unfolding catch_effects_def if_False append.simps .
  from pty_exit_keeps_handle
         [OF a b c, where co = example_coercions and exitCode = 0 and resized = True
            and p = "resize_message 120 40" and c = "Fin 120" and r = "Fin 40"] r
  have "run example_coercions session_with_pty
         [PtyExit 0 True, WsMessage (resize_message 120 40) True]
       = ([Log ''PTY exited'', WsSend (Exit 0), PtyResize 0 (Fin 120) (Fin 40)]
            @ (if True then [Log ''PTY resized''] else catch_effects), session_with_pty)"
    by blast
  then have rt: "run example_coercions session_with_pty
         [PtyExit 0 True, WsMessage (resize_message 120 40) True]
       = ([Log ''PTY exited'', WsSend (Exit 0), PtyResize 0 (Fin 120) (Fin 40),
           Log ''PTY resized''], session_with_pty)"
    unfolding if_True append.simps .
  show ?thesis using a b c i r e rn rf rt keep cl by blast
qed

end
